theory Spec2Isabelle
  imports Main
begin

section \<open>Data model of mysql\_backup.py\<close>

text \<open>
  The configuration file holds a list of app dictionaries. The script reads the sections
  \<open>cfg\<close> (names and directories) and \<open>bk\<close> (the four last-backup stamps); the sections
  \<open>rotate\<close> and \<open>custom\<close> are only handed on to the rotation class and to the dump command.
  Python integers are unbounded, so the stamps are \<open>int\<close>.
\<close>

record app_cfg =
  app_name :: string
  local_backup_dir :: string
  remote_backup_dir :: string

record app_bk =
  last_year :: int
  last_month :: int
  last_week :: int
  last_day :: int

record app =
  cfg :: app_cfg
  bk :: app_bk

text \<open>The four values \<open>do_backup\<close> takes from \<open>datetime.datetime.now()\<close>.\<close>

record datetime =
  current_year :: int
  current_month :: int
  current_week :: int
  current_day :: int

text \<open>The fields of the local time that \<open>time.strftime('%Y-%m-%d_%H-%M')\<close> prints.\<close>

record tm =
  tm_year :: nat
  tm_mon :: nat
  tm_mday :: nat
  tm_hour :: nat
  tm_min :: nat

subsection \<open>Outcomes of the external calls\<close>

text \<open>
  A call into a library either raises (with a message) or returns. \<open>execute\<close> raises
  \<open>ExternalCommandFailed\<close>; \<open>upload_file\<close> may raise anything, and \<open>upload_backup\<close> catches
  everything.
\<close>

datatype 'a outcome = Raised string | Returned 'a

text \<open>
  Modelled from the spec: \<open>RotateBackupsCM.rotate_backups\<close> (module \<open>rotate_dcm\<close>) is the
  RetentionRotator of the specification, whose contract is
  \<open>Rotate(namespace, policy) -> {deleted, kept, errors}\<close>: a failure to delete an artifact, or
  a remote store that is not connected, is recorded in \<open>errors\<close> and is not raised.
\<close>

record rotation_report =
  deleted :: "string list"
  kept :: "string list"
  errors :: "string list"

text \<open>What the outside world answers while one app is processed.\<close>

record outcomes =
  clock :: tm
  mysqldump :: "string outcome"
  gzip :: "bool outcome"
  upload_file :: "bool outcome"
  rotate_local :: rotation_report
  rotate_remote :: rotation_report
  save_clock :: tm

subsection \<open>Python values, log lines and the trace of effects\<close>

text \<open>\<open>create_full_backup\<close> returns a boolean, or \<open>None\<close> when it falls off its end.\<close>

datatype pyval = PyNone | PyBool bool

fun truthy :: "pyval \<Rightarrow> bool" where
  "truthy PyNone = False"
| "truthy (PyBool b) = b"

datatype level = Debug | Info | Error

datatype msg =
    Starting_all_backups
  | End_all_backups
  | Starting_full_backup string string
  | Finish_full_backup string string string
  | Error_creating_full_backup string string
  | Error_creating_full_backup_ex string string string
  | Uploading string
  | Uploaded string
  | Error_uploading string
  | Starting_rotate_backups string
  | Finish_rotate_backups string
  | Starting_save string
  | Finish_save string string
  | No_rotate string
  | End_backups string

datatype chunk = List_open | Item app | List_close

datatype event =
    Log level msg
  | Create_full_backup string string
  | Makedirs string
  | Exec_mysqldump
  | Exec_gzip string
  | Upload_file string
  | Rotate_backups string
  | Rotated string rotation_report
  | Save_config "app list"

datatype error = Config_load_error

section \<open>The configuration file\<close>

text \<open>
  The file is a JSON array with one object per app. Its content is modelled as the
  sequence of chunks the encoder writes: the opening bracket, one item per app, the
  closing bracket. \<open>json.load\<close> accepts exactly the complete sequences.
\<close>

definition json_dump :: "app list \<Rightarrow> chunk list" where
  "json_dump c = List_open # map Item c @ [List_close]"

fun json_items :: "chunk list \<Rightarrow> app list option" where
  "json_items [List_close] = Some []"
| "json_items (Item a # cs) = map_option ((#) a) (json_items cs)"
| "json_items _ = None"

fun json_load :: "chunk list \<Rightarrow> app list option" where
  "json_load (List_open # cs) = json_items cs"
| "json_load _ = None"

definition read_config :: "chunk list \<Rightarrow> error + app list" where
  "read_config file =
     (case json_load file of None \<Rightarrow> Inl Config_load_error | Some c \<Rightarrow> Inr c)"

text \<open>\<open>open(CONFIG_FILE, 'w')\<close> truncates the file; every write appends to it.\<close>

definition open_w :: "chunk list \<Rightarrow> chunk list" where
  "open_w file = []"

definition write_chunks :: "chunk list \<Rightarrow> chunk list \<Rightarrow> chunk list" where
  "write_chunks file cs = file @ cs"

section \<open>Time stamps and paths\<close>

definition digit :: "nat \<Rightarrow> char" where
  "digit n = ''0123456789'' ! (n mod 10)"

fun dec :: "nat \<Rightarrow> string" where
  "dec n = (if n < 10 then [digit n] else dec (n div 10) @ [digit n])"

declare dec.simps [simp del]

definition pad2 :: "nat \<Rightarrow> string" where
  "pad2 n = (if n < 10 then CHR ''0'' # dec n else dec n)"

definition strftime :: "tm \<Rightarrow> string" where
  "strftime t =
     dec (tm_year t) @ ''-'' @ pad2 (tm_mon t) @ ''-'' @ pad2 (tm_mday t) @ ''_'' @
     pad2 (tm_hour t) @ ''-'' @ pad2 (tm_min t)"

text \<open>\<open>os.path.dirname\<close> and \<open>os.path.basename\<close> of \<open>posixpath\<close>: split at the last slash.\<close>

definition path_head :: "string \<Rightarrow> string" where
  "path_head p = rev (dropWhile (\<lambda>c. c \<noteq> CHR ''/'') (rev p))"

definition rstrip_slash :: "string \<Rightarrow> string" where
  "rstrip_slash s = rev (dropWhile (\<lambda>c. c = CHR ''/'') (rev s))"

definition dirname :: "string \<Rightarrow> string" where
  "dirname p =
     (let head = path_head p
      in if head \<noteq> [] \<and> \<not> list_all (\<lambda>c. c = CHR ''/'') head then rstrip_slash head
         else head)"

definition basename :: "string \<Rightarrow> string" where
  "basename p = rev (takeWhile (\<lambda>c. c \<noteq> CHR ''/'') (rev p))"

section \<open>The functions of the script\<close>

definition save_last_backup_datetime ::
  "outcomes \<Rightarrow> app \<Rightarrow> app list \<Rightarrow> chunk list \<Rightarrow> chunk list \<times> event list" where
  "save_last_backup_datetime oc a c file =
     (let filestamp = strftime (save_clock oc)
      in (write_chunks (open_w file) (json_dump c),
          [Log Info (Starting_save (app_name (cfg a))),
           Save_config c,
           Log Info (Finish_save (app_name (cfg a)) filestamp)]))"

text \<open>
  The content of the file when the process stops after \<open>n\<close> chunks of the dump have been
  written: the file was opened for writing, so the old content is gone.
\<close>

definition save_interrupted :: "nat \<Rightarrow> app list \<Rightarrow> chunk list \<Rightarrow> chunk list" where
  "save_interrupted n c file = write_chunks (open_w file) (take n (json_dump c))"

definition rotate_backups :: "outcomes \<Rightarrow> app \<Rightarrow> event list" where
  "rotate_backups oc a =
     [Rotate_backups (app_name (cfg a)),
      Log Info (Starting_rotate_backups (app_name (cfg a))),
      Rotated (local_backup_dir (cfg a)) (rotate_local oc),
      Rotated (remote_backup_dir (cfg a)) (rotate_remote oc),
      Log Info (Finish_rotate_backups (app_name (cfg a)))]"

definition upload_backup :: "outcomes \<Rightarrow> app \<Rightarrow> string \<Rightarrow> bool \<times> event list" where
  "upload_backup oc a backup_file =
     (case upload_file oc of
        Returned res \<Rightarrow>
          (res,
           [Log Debug (Uploading backup_file), Upload_file backup_file,
            Log Info (if res then Uploaded backup_file else Error_uploading backup_file)])
      | Raised e \<Rightarrow>
          (False,
           [Log Debug (Uploading backup_file), Upload_file backup_file,
            Log Error (Error_uploading backup_file)]))"

definition backup_path :: "outcomes \<Rightarrow> app \<Rightarrow> string \<Rightarrow> string" where
  "backup_path oc a backup_type =
     local_backup_dir (cfg a) @ app_name (cfg a) @ ''_'' @ strftime (clock oc) @ ''_'' @
     backup_type @ ''.'' @ ''gz''"

definition create_full_backup :: "outcomes \<Rightarrow> app \<Rightarrow> string \<Rightarrow> pyval \<times> event list" where
  "create_full_backup oc a backup_type =
     (let backup_file = backup_path oc a backup_type;
          name = app_name (cfg a);
          start = [Create_full_backup name backup_type,
                   Log Info (Starting_full_backup backup_type name),
                   Makedirs (dirname backup_file),
                   Exec_mysqldump]
      in case mysqldump oc of
           Raised e \<Rightarrow>
             (PyNone, start @ [Log Error (Error_creating_full_backup_ex backup_type name e)])
         | Returned mysql_cmd_res \<Rightarrow>
             (case gzip oc of
                Raised e \<Rightarrow>
                  (PyNone,
                   start @ [Exec_gzip backup_file,
                            Log Error (Error_creating_full_backup_ex backup_type name e)])
              | Returned cmd_result \<Rightarrow>
                  if cmd_result then
                    (let (res, evs) = upload_backup oc a backup_file
                     in (PyBool res,
                         start @ [Exec_gzip backup_file,
                                  Log Info (Finish_full_backup backup_type name backup_file)]
                           @ evs))
                  else
                    (PyBool cmd_result,
                     start @ [Exec_gzip backup_file,
                              Log Error (Error_creating_full_backup backup_type name)])))"

text \<open>
  Lines 141 to 174 of \<open>do_backup\<close>: the chain that chooses the backup type, calls
  \<open>create_full_backup\<close> and, when the result is truthy, advances the stamps and sets
  \<open>rotate\<close>. It returns the app, the flag \<open>rotate\<close> and the effects.
\<close>

definition choose_and_create :: "datetime \<Rightarrow> outcomes \<Rightarrow> app \<Rightarrow> app \<times> bool \<times> event list" where
  "choose_and_create now oc a =
     (if current_year now > last_year (bk a) then
        (let (backup_created, evs) = create_full_backup oc a ''yearly''
         in if truthy backup_created then
              (a\<lparr>bk := (bk a)\<lparr>last_year := current_year now,
                               last_month := current_month now,
                               last_week := current_week now,
                               last_day := current_day now\<rparr>\<rparr>, True, evs)
            else (a, False, evs))
      else if current_month now > last_month (bk a) then
        (let (backup_created, evs) = create_full_backup oc a ''monthly''
         in if truthy backup_created then
              (a\<lparr>bk := (bk a)\<lparr>last_month := current_month now,
                               last_week := current_week now,
                               last_day := current_day now\<rparr>\<rparr>, True, evs)
            else (a, False, evs))
      else if current_week now > last_week (bk a) then
        (let (backup_created, evs) = create_full_backup oc a ''weekly''
         in if truthy backup_created then
              (a\<lparr>bk := (bk a)\<lparr>last_week := current_week now,
                               last_day := current_day now\<rparr>\<rparr>, True, evs)
            else (a, False, evs))
      else if current_day now > last_day (bk a) then
        (let (backup_created, evs) = create_full_backup oc a ''daily''
         in if truthy backup_created then
              (a\<lparr>bk := (bk a)\<lparr>last_day := current_day now\<rparr>\<rparr>, True, evs)
            else (a, False, evs))
      else (a, False, []))"

text \<open>
  One iteration of the loop \<open>for app in cfg\<close>, for the app at position \<open>i\<close>. The app is
  an element of \<open>cfg\<close> and is changed in place, so the list that is saved holds the new
  stamps.
\<close>

definition loop_body ::
  "datetime \<Rightarrow> outcomes \<Rightarrow> nat \<Rightarrow> app list \<times> chunk list \<times> event list
     \<Rightarrow> app list \<times> chunk list \<times> event list" where
  "loop_body now oc i st =
     (case st of (c, file, tr) \<Rightarrow>
        (let (a, rotate, evs) = choose_and_create now oc (c ! i);
             c' = c[i := a];
             name = app_name (cfg a)
         in if rotate then
              (let revs = rotate_backups oc a;
                   (file', sevs) = save_last_backup_datetime oc a c' file
               in (c', file', tr @ evs @ revs @ sevs @ [Log Info (End_backups name)]))
            else
              (c', file,
               tr @ evs @ [Log Info (No_rotate name), Log Info (End_backups name)])))"

text \<open>
  \<open>do_backup\<close>: the argument \<open>world\<close> gives the outcomes met while the app at each
  position is processed. A configuration that cannot be loaded ends the run.
\<close>

definition do_backup ::
  "datetime \<Rightarrow> (nat \<Rightarrow> outcomes) \<Rightarrow> chunk list
     \<Rightarrow> error + (app list \<times> chunk list \<times> event list)" where
  "do_backup now world file =
     (case read_config file of
        Inl e \<Rightarrow> Inl e
      | Inr c \<Rightarrow>
          (case fold (\<lambda>i. loop_body now (world i) i) [0..<length c]
                  (c, file, [Log Info Starting_all_backups]) of
             (c', file', tr) \<Rightarrow> Inr (c', file', tr @ [Log Info End_all_backups])))"

section \<open>Reading the trace\<close>

fun created :: "event \<Rightarrow> string list" where
  "created (Create_full_backup n t) = [t]"
| "created _ = []"

text \<open>The backup types of the calls of \<open>create_full_backup\<close>, in order.\<close>

definition attempted :: "event list \<Rightarrow> string list" where
  "attempted evs = concat (map created evs)"

fun created_for :: "event \<Rightarrow> (string \<times> string) list" where
  "created_for (Create_full_backup n t) = [(n, t)]"
| "created_for _ = []"

text \<open>The same with the name of the app of each call.\<close>

definition attempted_for :: "event list \<Rightarrow> (string \<times> string) list" where
  "attempted_for evs = concat (map created_for evs)"

fun ended :: "event \<Rightarrow> string list" where
  "ended (Log l (End_backups n)) = [n]"
| "ended _ = []"

text \<open>The apps whose iteration reached its last line, in order.\<close>

definition finished :: "event list \<Rightarrow> string list" where
  "finished evs = concat (map ended evs)"

fun is_rotation :: "event \<Rightarrow> bool" where
  "is_rotation (Rotate_backups n) = True"
| "is_rotation (Rotated d r) = True"
| "is_rotation _ = False"

fun is_save :: "event \<Rightarrow> bool" where
  "is_save (Save_config c) = True"
| "is_save _ = False"

section \<open>The scheduling policy in the words of the specification\<close>

datatype tier = Daily | Weekly | Monthly | Yearly

fun tier_name :: "tier \<Rightarrow> string" where
  "tier_name Daily = ''daily''"
| "tier_name Weekly = ''weekly''"
| "tier_name Monthly = ''monthly''"
| "tier_name Yearly = ''yearly''"

fun priority :: "tier \<Rightarrow> nat" where
  "priority Daily = 0"
| "priority Weekly = 1"
| "priority Monthly = 2"
| "priority Yearly = 3"

text \<open>The condition of each tier taken alone.\<close>

fun tier_due :: "datetime \<Rightarrow> app_bk \<Rightarrow> tier \<Rightarrow> bool" where
  "tier_due now b Yearly = (current_year now > last_year b)"
| "tier_due now b Monthly = (current_month now > last_month b)"
| "tier_due now b Weekly = (current_week now > last_week b)"
| "tier_due now b Daily = (current_day now > last_day b)"

text \<open>\<open>Decide\<close>: the first tier, from the highest down, whose condition holds.\<close>

definition decide :: "datetime \<Rightarrow> app_bk \<Rightarrow> tier option" where
  "decide now b = find (tier_due now b) [Yearly, Monthly, Weekly, Daily]"

text \<open>What a run owes an app: the call of \<open>create_full_backup\<close> for the tier decided.\<close>

definition due_call :: "datetime \<Rightarrow> app \<Rightarrow> (string \<times> string) list" where
  "due_call now a =
     (case decide now (bk a) of None \<Rightarrow> [] | Some t \<Rightarrow> [(app_name (cfg a), tier_name t)])"

text \<open>The canonical artifact name and the shape of its time stamp.\<close>

definition canonical_name :: "string \<Rightarrow> string \<Rightarrow> string \<Rightarrow> string \<Rightarrow> string" where
  "canonical_name name stamp tier_str ext = name @ ''_'' @ stamp @ ''_'' @ tier_str @ ''.'' @ ext"

definition is_digit :: "char \<Rightarrow> bool" where
  "is_digit ch = (ch \<in> set ''0123456789'')"

definition is_filestamp :: "string \<Rightarrow> bool" where
  "is_filestamp s =
     list_all2 (\<lambda>p ch. if p = CHR ''d'' then is_digit ch else ch = p) ''dddd-dd-dd_dd-dd'' s"

section \<open>Concrete inputs\<close>

definition jom :: app where
  "jom = \<lparr>cfg = \<lparr>app_name = ''jom'', local_backup_dir = ''/backups/jom/'',
                  remote_backup_dir = ''jom''\<rparr>,
          bk = \<lparr>last_year = 2023, last_month = 12, last_week = 52, last_day = 31\<rparr>\<rparr>"

definition wiki :: app where
  "wiki = \<lparr>cfg = \<lparr>app_name = ''wiki'', local_backup_dir = ''/backups/wiki/'',
                   remote_backup_dir = ''wiki''\<rparr>,
           bk = \<lparr>last_year = 2024, last_month = 1, last_week = 1, last_day = 1\<rparr>\<rparr>"

definition jom_no_slash :: app where
  "jom_no_slash = jom\<lparr>cfg := (cfg jom)\<lparr>local_backup_dir := ''/backups/jom''\<rparr>\<rparr>"

definition new_year :: datetime where
  "new_year = \<lparr>current_year = 2024, current_month = 1, current_week = 1, current_day = 1\<rparr>"

definition new_year_time :: tm where
  "new_year_time = \<lparr>tm_year = 2024, tm_mon = 1, tm_mday = 1, tm_hour = 9, tm_min = 58\<rparr>"

definition no_report :: rotation_report where
  "no_report = \<lparr>deleted = [], kept = [], errors = []\<rparr>"

definition all_fine :: outcomes where
  "all_fine = \<lparr>clock = new_year_time, mysqldump = Returned ''dump'', gzip = Returned True,
                upload_file = Returned True, rotate_local = no_report,
                rotate_remote = no_report, save_clock = new_year_time\<rparr>"

definition upload_fails :: outcomes where
  "upload_fails = all_fine\<lparr>upload_file := Returned False\<rparr>"

definition dump_fails :: outcomes where
  "dump_fails = all_fine\<lparr>mysqldump := Raised ''mysqldump failed''\<rparr>"

definition mid_year :: datetime where
  "mid_year = \<lparr>current_year = 2024, current_month = 6, current_week = 26, current_day = 24\<rparr>"

definition rolled_back :: datetime where
  "rolled_back = \<lparr>current_year = 2023, current_month = 1, current_week = 1, current_day = 2\<rparr>"

definition rotation_fails :: outcomes where
  "rotation_fails =
     all_fine\<lparr>rotate_remote := \<lparr>deleted = [], kept = [], errors = [''not authorized'']\<rparr>\<rparr>"

section \<open>Basic facts about the functions\<close>

lemma attempted_append: "attempted (xs @ ys) = attempted xs @ attempted ys"
  by (simp add: attempted_def)

lemma attempted_create: "attempted (snd (create_full_backup oc a t)) = [t]"
  by (simp add: create_full_backup_def upload_backup_def attempted_def Let_def
      split: outcome.splits prod.splits)

lemma create_no_rotation: "e \<in> set (snd (create_full_backup oc a t)) \<Longrightarrow> \<not> is_rotation e \<and> \<not> is_save e"
  by (auto simp: create_full_backup_def upload_backup_def Let_def
      split: outcome.splits prod.splits if_splits)

lemma create_falsy_iff:
  "truthy (fst (create_full_backup oc a t)) \<longleftrightarrow>
     (\<exists>d. mysqldump oc = Returned d) \<and> gzip oc = Returned True \<and> upload_file oc = Returned True"
  by (auto simp: create_full_backup_def upload_backup_def Let_def
      split: outcome.splits prod.splits if_splits)

lemma choose_events:
  "snd (snd (choose_and_create now oc a)) =
     (case decide now (bk a) of None \<Rightarrow> [] | Some t \<Rightarrow> snd (create_full_backup oc a (tier_name t)))"
  by (simp add: choose_and_create_def decide_def Let_def split: prod.splits)

lemma choose_flag:
  "fst (snd (choose_and_create now oc a)) =
     (case decide now (bk a) of None \<Rightarrow> False | Some t \<Rightarrow> truthy (fst (create_full_backup oc a (tier_name t))))"
  by (simp add: choose_and_create_def decide_def Let_def split: prod.splits)

lemma choose_unchanged:
  "\<not> fst (snd (choose_and_create now oc a)) \<Longrightarrow> fst (choose_and_create now oc a) = a"
  by (simp add: choose_and_create_def Let_def split: prod.splits if_splits)

lemma choose_cfg: "cfg (fst (choose_and_create now oc a)) = cfg a"
  by (simp add: choose_and_create_def Let_def split: prod.splits if_splits)


lemma decide_None: "decide now b = None \<longleftrightarrow> (\<forall>t. \<not> tier_due now b t)"
proof
  assume "decide now b = None"
  then have n: "\<not> tier_due now b Yearly" "\<not> tier_due now b Monthly"
    "\<not> tier_due now b Weekly" "\<not> tier_due now b Daily"
    by (simp_all add: decide_def split: if_splits)
  show "\<forall>t. \<not> tier_due now b t"
  proof
    fix t show "\<not> tier_due now b t" using n by (cases t) simp_all
  qed
next
  assume a: "\<forall>t. \<not> tier_due now b t"
  show "decide now b = None"
    using a [rule_format, of Yearly] a [rule_format, of Monthly] a [rule_format, of Weekly]
      a [rule_format, of Daily]
    by (simp add: decide_def)
qed

lemma decide_Some:
  assumes "decide now b = Some t"
  shows "tier_due now b t" and "tier_due now b t' \<Longrightarrow> priority t' \<le> priority t"
proof -
  show "tier_due now b t"
    using assms by (auto simp: decide_def split: if_splits)
  show "tier_due now b t' \<Longrightarrow> priority t' \<le> priority t"
    using assms by (cases t') (auto simp: decide_def split: if_splits)
qed

lemma loop_body_eq:
  "loop_body now oc i (c, file, tr) =
     (let r = choose_and_create now oc (c ! i); a = fst r; name = app_name (cfg (c ! i))
      in if fst (snd r) then
           (c[i := a], json_dump (c[i := a]),
            tr @ snd (snd r) @ rotate_backups oc a @
              snd (save_last_backup_datetime oc a (c[i := a]) file) @
              [Log Info (End_backups name)])
         else (c, file, tr @ snd (snd r) @ [Log Info (No_rotate name), Log Info (End_backups name)]))"
proof -
  obtain a r evs where ch: "choose_and_create now oc (c ! i) = (a, r, evs)"
    by (cases "choose_and_create now oc (c ! i)") auto
  have nm: "cfg a = cfg (c ! i)"
    using choose_cfg [of now oc "c ! i"] ch by simp
  show ?thesis
  proof (cases r)
    case True
    with ch nm show ?thesis
      by (simp add: loop_body_def Let_def save_last_backup_datetime_def open_w_def
          write_chunks_def)
  next
    case False
    with ch choose_unchanged [of now oc "c ! i"] have "a = c ! i" by simp
    with False ch show ?thesis
      by (simp add: loop_body_def Let_def)
  qed
qed

lemma attempted_rotate: "attempted (rotate_backups oc a) = []"
  by (simp add: rotate_backups_def attempted_def)

lemma attempted_save: "attempted (snd (save_last_backup_datetime oc a c file)) = []"
  by (simp add: save_last_backup_datetime_def attempted_def)

lemma attempted_choose:
  "attempted (snd (snd (choose_and_create now oc a))) =
     (case decide now (bk a) of None \<Rightarrow> [] | Some t \<Rightarrow> [tier_name t])"
  by (simp add: choose_events attempted_create split: option.splits) (simp add: attempted_def)

lemma loop_body_attempted:
  "attempted (snd (snd (loop_body now oc i (c, file, tr)))) =
     attempted tr @ (case decide now (bk (c ! i)) of None \<Rightarrow> [] | Some t \<Rightarrow> [tier_name t])"
  by (simp add: loop_body_eq Let_def attempted_append attempted_rotate attempted_save
      attempted_choose) (simp add: attempted_def)

lemma rotate_events: "e \<in> set (rotate_backups oc a) \<Longrightarrow> \<not> is_save e"
  by (auto simp: rotate_backups_def)

lemma loop_body_failed:
  assumes "\<not> fst (snd (choose_and_create now oc (c ! i)))"
  shows "loop_body now oc i (c, fl, tr) =
           (c, fl, tr @ snd (snd (choose_and_create now oc (c ! i))) @
              [Log Info (No_rotate (app_name (cfg (c ! i)))),
               Log Info (End_backups (app_name (cfg (c ! i))))])"
  using assms by (simp add: loop_body_eq Let_def)

lemma choose_no_rotation:
  "e \<in> set (snd (snd (choose_and_create now oc a))) \<Longrightarrow> \<not> is_rotation e \<and> \<not> is_save e"
  by (auto simp: choose_events create_no_rotation split: option.splits)

lemma loop_body_failed_events:
  assumes "\<not> fst (snd (choose_and_create now oc (c ! i)))"
    and "e \<in> set (snd (snd (loop_body now oc i (c, fl, []))))"
  shows "\<not> is_rotation e \<and> \<not> is_save e"
  using assms choose_no_rotation [of e now oc "c ! i"]
  by (auto simp: loop_body_failed)

lemma json_items_dump: "json_items (map Item c @ [List_close]) = Some c"
  by (induction c) simp_all

lemma json_roundtrip: "json_load (json_dump c) = Some c"
  by (simp add: json_dump_def json_items_dump)

lemma choose_yearly:
  assumes "current_year now > last_year (bk a)"
    and "truthy (fst (create_full_backup oc a ''yearly''))"
  shows "fst (choose_and_create now oc a) =
           a\<lparr>bk := \<lparr>last_year = current_year now, last_month = current_month now,
                    last_week = current_week now, last_day = current_day now\<rparr>\<rparr>"
    and "fst (snd (choose_and_create now oc a))"
  using assms by (auto simp: choose_and_create_def Let_def split: prod.splits)

lemma choose_then_none:
  "fst (snd (choose_and_create now oc a)) \<Longrightarrow>
     decide now (bk (fst (choose_and_create now oc a))) = None"
  by (auto simp: choose_and_create_def decide_def Let_def split: prod.splits if_splits)

lemma save_in_loop_body:
  assumes "Save_config x \<in> set (snd (snd (loop_body now oc i (c, fl, []))))"
  shows "fst (snd (choose_and_create now oc (c ! i)))"
proof (rule ccontr)
  assume nf: "\<not> fst (snd (choose_and_create now oc (c ! i)))"
  from loop_body_failed_events [OF nf assms] show False by simp
qed

lemmas example_defs =
  jom_def wiki_def new_year_def new_year_time_def no_report_def all_fine_def upload_fails_def
  dump_fails_def rotation_fails_def mid_year_def rolled_back_def jom_no_slash_def

lemmas run_defs =
  loop_body_def choose_and_create_def create_full_backup_def upload_backup_def
  backup_path_def rotate_backups_def save_last_backup_datetime_def open_w_def
  write_chunks_def json_dump_def strftime_def pad2_def dec.simps digit_def dirname_def
  path_head_def rstrip_slash_def attempted_def decide_def Let_def

section \<open>The claims\<close>

text \<open>
  C2. When more than one tier condition holds for an app, the iteration for that app calls
  \<open>create_full_backup\<close> exactly once, with the tier of highest priority among those whose
  condition holds (yearly over monthly over weekly over daily); no lower tier is tried.
\<close>

theorem highest_priority_tier_only:
  assumes "tier_due now (bk (c ! i)) t1" and "tier_due now (bk (c ! i)) t2" and "t1 \<noteq> t2"
  shows "\<exists>t. attempted (snd (snd (loop_body now oc i (c, file, [])))) = [tier_name t] \<and>
             tier_due now (bk (c ! i)) t \<and>
             (\<forall>t'. tier_due now (bk (c ! i)) t' \<longrightarrow> priority t' \<le> priority t)"
proof -
  from assms(1) have "decide now (bk (c ! i)) \<noteq> None"
    by (auto simp: decide_None)
  then obtain t where t: "decide now (bk (c ! i)) = Some t" by auto
  have "attempted (snd (snd (loop_body now oc i (c, file, [])))) = [tier_name t]"
    by (simp add: loop_body_attempted t) (simp add: attempted_def)
  with decide_Some [OF t] show ?thesis by blast
qed


theorem highest_priority_tier_only_witness:
  "tier_due mid_year (bk ([wiki] ! 0)) Monthly \<and> tier_due mid_year (bk ([wiki] ! 0)) Daily \<and>
   Monthly \<noteq> Daily \<and>
   (\<exists>t. attempted (snd (snd (loop_body mid_year all_fine 0 ([wiki], json_dump [wiki], [])))) =
          [tier_name t] \<and>
        tier_due mid_year (bk ([wiki] ! 0)) t \<and>
        (\<forall>t'. tier_due mid_year (bk ([wiki] ! 0)) t' \<longrightarrow> priority t' \<le> priority t))"
  using highest_priority_tier_only [of mid_year "[wiki]" 0 Monthly Daily all_fine "json_dump [wiki]"]
  by (simp add: mid_year_def wiki_def)

text \<open>
  C1, as amended. When the dump and the compression succeed and the upload fails (it
  returns a falsy value or raises), \<open>create_full_backup\<close> returns the falsy upload result,
  so the iteration does not rotate: \<open>rotate_backups\<close> is not called for the app, the stamps
  are not advanced and nothing is saved. The archive was written, the upload was tried and
  its failure is logged.
\<close>

theorem upload_failure_blocks_rotation:
  assumes dump: "mysqldump oc = Returned d" and gz: "gzip oc = Returned True"
    and up: "upload_file oc = Returned False \<or> upload_file oc = Raised m"
    and due: "decide now (bk (c ! i)) = Some t"
    and run: "loop_body now oc i (c, fl, []) = (c', fl', evs)"
  shows "c' = c \<and> fl' = fl \<and> (\<forall>e \<in> set evs. \<not> is_rotation e \<and> \<not> is_save e) \<and>
         Exec_gzip (backup_path oc (c ! i) (tier_name t)) \<in> set evs \<and>
         Upload_file (backup_path oc (c ! i) (tier_name t)) \<in> set evs \<and>
         (Log Info (Error_uploading (backup_path oc (c ! i) (tier_name t))) \<in> set evs \<or>
          Log Error (Error_uploading (backup_path oc (c ! i) (tier_name t))) \<in> set evs)"
proof -
  have "\<not> truthy (fst (create_full_backup oc (c ! i) (tier_name t)))"
    using up by (auto simp: create_falsy_iff)
  then have nf: "\<not> fst (snd (choose_and_create now oc (c ! i)))"
    by (simp add: choose_flag due)
  from run have same: "c' = c" "fl' = fl"
    by (simp_all add: loop_body_failed [OF nf])
  have ev: "\<forall>e \<in> set evs. \<not> is_rotation e \<and> \<not> is_save e"
    using loop_body_failed_events [OF nf, of _ fl] run by simp
  have sub: "set (snd (create_full_backup oc (c ! i) (tier_name t))) \<subseteq> set evs"
    using run by (auto simp: loop_body_failed [OF nf] choose_events due)
  have "Exec_gzip (backup_path oc (c ! i) (tier_name t))
          \<in> set (snd (create_full_backup oc (c ! i) (tier_name t)))"
    "Upload_file (backup_path oc (c ! i) (tier_name t))
          \<in> set (snd (create_full_backup oc (c ! i) (tier_name t)))"
    "Log Info (Error_uploading (backup_path oc (c ! i) (tier_name t)))
          \<in> set (snd (create_full_backup oc (c ! i) (tier_name t))) \<or>
     Log Error (Error_uploading (backup_path oc (c ! i) (tier_name t)))
          \<in> set (snd (create_full_backup oc (c ! i) (tier_name t)))"
    using dump gz up
    by (auto simp: create_full_backup_def upload_backup_def Let_def)
  with sub same ev show ?thesis by blast
qed

theorem upload_failure_blocks_rotation_witness:
  "mysqldump upload_fails = Returned ''dump'' \<and> gzip upload_fails = Returned True \<and>
   upload_file upload_fails = Returned False \<and>
   decide new_year (bk ([jom] ! 0)) = Some Yearly \<and>
   fst (loop_body new_year upload_fails 0 ([jom], json_dump [jom], [])) = [jom] \<and>
   fst (snd (loop_body new_year upload_fails 0 ([jom], json_dump [jom], []))) = json_dump [jom] \<and>
   Upload_file (backup_path upload_fails ([jom] ! 0) (tier_name Yearly))
     \<in> set (snd (snd (loop_body new_year upload_fails 0 ([jom], json_dump [jom], []))))"
  using upload_failure_blocks_rotation [where now = new_year and c = "[jom]" and i = 0
      and t = Yearly and oc = upload_fails and d = "''dump''" and m = "''none''"
      and fl = "json_dump [jom]"
      and c' = "fst (loop_body new_year upload_fails 0 ([jom], json_dump [jom], []))"
      and fl' = "fst (snd (loop_body new_year upload_fails 0 ([jom], json_dump [jom], [])))"
      and evs = "snd (snd (loop_body new_year upload_fails 0 ([jom], json_dump [jom], [])))"]
  by (simp add: decide_def example_defs)

text \<open>
  The claim as first stated fails: the archive is created, the upload fails, and
  \<open>rotate_backups\<close> is not called.
\<close>

theorem upload_failure_rotation_counterexample:
  "mysqldump upload_fails = Returned ''dump'' \<and> gzip upload_fails = Returned True \<and>
   upload_file upload_fails = Returned False \<and>
   Exec_gzip ''/backups/jom/jom_2024-01-01_09-58_yearly.gz''
     \<in> set (snd (snd (loop_body new_year upload_fails 0 ([jom], json_dump [jom], [])))) \<and>
   Rotate_backups ''jom''
     \<notin> set (snd (snd (loop_body new_year upload_fails 0 ([jom], json_dump [jom], []))))"
  by (simp add: run_defs example_defs)

text \<open>
  C3. When the yearly tier fires and the backup is reported created, the app's four stamps
  become the year, month, ISO week and day of \<open>now\<close>, all of them, and the saved file
  holds the list with these stamps.
\<close>

theorem yearly_advances_all_four:
  assumes "current_year now > last_year (bk (c ! i))"
    and "truthy (fst (create_full_backup oc (c ! i) ''yearly''))"
    and "i < length c"
    and "loop_body now oc i (c, fl, []) = (c', fl', evs)"
  shows "bk (c' ! i) = \<lparr>last_year = current_year now, last_month = current_month now,
                         last_week = current_week now, last_day = current_day now\<rparr> \<and>
         json_load fl' = Some c'"
  using assms(3,4) choose_yearly [OF assms(1,2)]
  by (auto simp: loop_body_eq Let_def json_roundtrip)

theorem yearly_advances_all_four_witness:
  "last_year (bk ([jom] ! 0)) < current_year new_year \<and>
   truthy (fst (create_full_backup all_fine ([jom] ! 0) ''yearly'')) \<and>
   (0::nat) < length [jom] \<and>
   bk (fst (loop_body new_year all_fine 0 ([jom], json_dump [jom], [])) ! 0) =
     \<lparr>last_year = 2024, last_month = 1, last_week = 1, last_day = 1\<rparr> \<and>
   json_load (fst (snd (loop_body new_year all_fine 0 ([jom], json_dump [jom], [])))) =
     Some (fst (loop_body new_year all_fine 0 ([jom], json_dump [jom], [])))"
  using yearly_advances_all_four [where now = new_year and c = "[jom]" and i = 0
      and oc = all_fine and fl = "json_dump [jom]"
      and c' = "fst (loop_body new_year all_fine 0 ([jom], json_dump [jom], []))"
      and fl' = "fst (snd (loop_body new_year all_fine 0 ([jom], json_dump [jom], [])))"
      and evs = "snd (snd (loop_body new_year all_fine 0 ([jom], json_dump [jom], [])))"]
  by (simp add: create_falsy_iff example_defs)

text \<open>
  C4. After an iteration whose outcome was taken over into the app's stamps (the list was
  saved, or nothing was due), a second iteration with the same \<open>now\<close> finds no tier due
  and calls \<open>create_full_backup\<close> not at all, whatever the outside world would answer.
\<close>

theorem second_call_not_due:
  assumes run: "loop_body now oc i (c, fl, []) = (c', fl', evs)"
    and i: "i < length c"
    and upd: "Save_config c' \<in> set evs \<or> attempted evs = []"
  shows "decide now (bk (c' ! i)) = None \<and>
         attempted (snd (snd (loop_body now oc' i (c', fl', [])))) = []"
proof -
  have "decide now (bk (c' ! i)) = None"
  proof (cases "fst (snd (choose_and_create now oc (c ! i)))")
    case True
    with run i have "c' ! i = fst (choose_and_create now oc (c ! i))"
      by (auto simp: loop_body_eq Let_def)
    with True show ?thesis by (simp add: choose_then_none)
  next
    case False
    with run have same: "c' = c" by (simp add: loop_body_failed)
    from False save_in_loop_body [of c' now oc i c fl] run
    have "Save_config c' \<notin> set evs" by auto
    with upd have "attempted evs = []" by simp
    moreover have "attempted evs =
        (case decide now (bk (c ! i)) of None \<Rightarrow> [] | Some t \<Rightarrow> [tier_name t])"
      using loop_body_attempted [of now oc i c fl "[]"] run by (simp add: attempted_def)
    ultimately show ?thesis using same by (simp split: option.splits)
  qed
  then show ?thesis
    by (simp add: loop_body_attempted) (simp add: attempted_def)
qed

theorem second_call_not_due_witness:
  "(0::nat) < length [jom] \<and>
   Save_config (fst (loop_body new_year all_fine 0 ([jom], json_dump [jom], [])))
     \<in> set (snd (snd (loop_body new_year all_fine 0 ([jom], json_dump [jom], [])))) \<and>
   decide new_year (bk (fst (loop_body new_year all_fine 0 ([jom], json_dump [jom], [])) ! 0)) =
     None \<and>
   attempted (snd (snd (loop_body new_year dump_fails 0
     (fst (loop_body new_year all_fine 0 ([jom], json_dump [jom], [])),
      fst (snd (loop_body new_year all_fine 0 ([jom], json_dump [jom], []))), [])))) = []"
  using second_call_not_due [where now = new_year and c = "[jom]" and i = 0
      and oc = all_fine and fl = "json_dump [jom]" and oc' = dump_fails
      and c' = "fst (loop_body new_year all_fine 0 ([jom], json_dump [jom], []))"
      and fl' = "fst (snd (loop_body new_year all_fine 0 ([jom], json_dump [jom], [])))"
      and evs = "snd (snd (loop_body new_year all_fine 0 ([jom], json_dump [jom], [])))"]
  by (simp add: run_defs example_defs)

text \<open>
  C5. When a tier is due and the creation of the archive fails (the dump or the compression
  raises, or the compression returns a falsy value), the iteration performs no rotation
  and no save, the list of apps and the file are unchanged, and the next iteration with
  the same \<open>now\<close> tries the same tier again.
\<close>

theorem creation_failure_leaves_state:
  assumes due: "decide now (bk (c ! i)) = Some t"
    and fails: "mysqldump oc = Raised m \<or> gzip oc = Raised m \<or> gzip oc = Returned False"
    and run: "loop_body now oc i (c, fl, []) = (c', fl', evs)"
  shows "c' = c \<and> fl' = fl \<and> (\<forall>e \<in> set evs. \<not> is_rotation e \<and> \<not> is_save e) \<and>
         attempted evs = [tier_name t] \<and>
         attempted (snd (snd (loop_body now oc' i (c', fl', [])))) = [tier_name t]"
proof -
  have "\<not> truthy (fst (create_full_backup oc (c ! i) (tier_name t)))"
    using fails by (auto simp: create_falsy_iff)
  then have nf: "\<not> fst (snd (choose_and_create now oc (c ! i)))"
    by (simp add: choose_flag due)
  from run have same: "c' = c" "fl' = fl"
    by (simp_all add: loop_body_failed [OF nf])
  have ev: "\<forall>e \<in> set evs. \<not> is_rotation e \<and> \<not> is_save e"
    using loop_body_failed_events [OF nf, of _ fl] run by simp
  have "attempted (snd (snd (loop_body now oc i (c, fl, [])))) = [tier_name t]"
    by (simp add: loop_body_attempted due) (simp add: attempted_def)
  then have a1: "attempted evs = [tier_name t]" using run by simp
  have a2: "attempted (snd (snd (loop_body now oc' i (c', fl', [])))) = [tier_name t]"
    unfolding same by (simp add: loop_body_attempted due) (simp add: attempted_def)
  from same ev a1 a2 show ?thesis by simp
qed

theorem creation_failure_leaves_state_witness:
  "decide new_year (bk ([jom] ! 0)) = Some Yearly \<and>
   mysqldump dump_fails = Raised ''mysqldump failed'' \<and>
   fst (loop_body new_year dump_fails 0 ([jom], json_dump [jom], [])) = [jom] \<and>
   fst (snd (loop_body new_year dump_fails 0 ([jom], json_dump [jom], []))) = json_dump [jom] \<and>
   attempted (snd (snd (loop_body new_year dump_fails 0 ([jom], json_dump [jom], [])))) =
     [''yearly''] \<and>
   attempted (snd (snd (loop_body new_year all_fine 0
     (fst (loop_body new_year dump_fails 0 ([jom], json_dump [jom], [])),
      fst (snd (loop_body new_year dump_fails 0 ([jom], json_dump [jom], []))), [])))) =
     [''yearly'']"
proof -
  have due: "decide new_year (bk ([jom] ! 0)) = Some Yearly"
    by (simp add: decide_def example_defs)
  have raised: "mysqldump dump_fails = Raised ''mysqldump failed''"
    by (simp add: example_defs)
  then have fails: "mysqldump dump_fails = Raised ''mysqldump failed'' \<or>
      gzip dump_fails = Raised ''mysqldump failed'' \<or> gzip dump_fails = Returned False"
    by simp
  have run: "loop_body new_year dump_fails 0 ([jom], json_dump [jom], []) =
      (fst (loop_body new_year dump_fails 0 ([jom], json_dump [jom], [])),
       fst (snd (loop_body new_year dump_fails 0 ([jom], json_dump [jom], []))),
       snd (snd (loop_body new_year dump_fails 0 ([jom], json_dump [jom], []))))"
    by simp
  from creation_failure_leaves_state [OF due fails run, of all_fine, unfolded tier_name.simps]
    due raised
  show ?thesis by blast
qed

text \<open>
  C6, as amended. When the year of \<open>now\<close> is below the stored year, the yearly tier is not
  chosen and nothing is rejected or logged for it: the chain goes on to the comparisons of
  month, week and day, and the outcome is the one for an app whose stored year equals the
  current one. So monthly, weekly or daily is chosen exactly as its own comparison says.
\<close>

theorem year_rollback_falls_through:
  assumes "current_year now < last_year (bk (c ! i))"
  shows "attempted (snd (snd (loop_body now oc i (c, fl, [])))) =
           (if current_month now > last_month (bk (c ! i)) then [''monthly'']
            else if current_week now > last_week (bk (c ! i)) then [''weekly'']
            else if current_day now > last_day (bk (c ! i)) then [''daily'']
            else []) \<and>
         snd (choose_and_create now oc (c ! i)) =
           snd (choose_and_create now oc ((c ! i)\<lparr>bk := (bk (c ! i))\<lparr>last_year := current_year now\<rparr>\<rparr>))"
proof -
  have "decide now (bk (c ! i)) =
          (if current_month now > last_month (bk (c ! i)) then Some Monthly
           else if current_week now > last_week (bk (c ! i)) then Some Weekly
           else if current_day now > last_day (bk (c ! i)) then Some Daily
           else None)"
    using assms by (simp add: decide_def)
  then have a: "attempted (snd (snd (loop_body now oc i (c, fl, [])))) =
           (if current_month now > last_month (bk (c ! i)) then [''monthly'']
            else if current_week now > last_week (bk (c ! i)) then [''weekly'']
            else if current_day now > last_day (bk (c ! i)) then [''daily'']
            else [])"
    by (simp add: loop_body_attempted) (simp add: attempted_def)
  have b: "snd (choose_and_create now oc (c ! i)) =
           snd (choose_and_create now oc ((c ! i)\<lparr>bk := (bk (c ! i))\<lparr>last_year := current_year now\<rparr>\<rparr>))"
    using assms
    by (simp add: choose_and_create_def create_full_backup_def backup_path_def
        upload_backup_def Let_def split: prod.splits outcome.splits)
  from a b show ?thesis by simp
qed

theorem year_rollback_falls_through_witness:
  "current_year rolled_back < last_year (bk ([wiki] ! 0)) \<and>
   attempted (snd (snd (loop_body rolled_back all_fine 0 ([wiki], json_dump [wiki], [])))) =
     [''daily''] \<and>
   snd (choose_and_create rolled_back all_fine ([wiki] ! 0)) =
     snd (choose_and_create rolled_back all_fine
       (([wiki] ! 0)\<lparr>bk := (bk ([wiki] ! 0))\<lparr>last_year := current_year rolled_back\<rparr>\<rparr>))"
  using year_rollback_falls_through [where now = rolled_back and c = "[wiki]" and i = 0
      and oc = all_fine and fl = "json_dump [wiki]"]
  by (simp add: example_defs)

text \<open>
  The claim as first stated fails: with the year rolled back from 2024 to 2023 and the day
  one later than the stored day, a daily backup is tried.
\<close>

theorem year_rollback_counterexample:
  "current_year rolled_back < last_year (bk ([wiki] ! 0)) \<and>
   attempted (snd (snd (loop_body rolled_back all_fine 0 ([wiki], json_dump [wiki], [])))) =
     [''daily'']"
  by (simp add: loop_body_attempted decide_def example_defs) (simp add: attempted_def)

text \<open>
  C10. When the dump or the compression raises \<open>ExternalCommandFailed\<close>,
  \<open>create_full_backup\<close> logs the error and returns \<open>None\<close>, not \<open>False\<close>; the caller takes
  the falsy value as a failed creation: the list and the file stay as they were, and there
  is neither rotation nor save.
\<close>

theorem external_command_failed_returns_none:
  assumes "mysqldump oc = Raised m \<or> (mysqldump oc = Returned d \<and> gzip oc = Raised m)"
  shows "fst (create_full_backup oc (c ! i) t) = PyNone \<and>
         fst (create_full_backup oc (c ! i) t) \<noteq> PyBool False \<and>
         Log Error (Error_creating_full_backup_ex t (app_name (cfg (c ! i))) m)
           \<in> set (snd (create_full_backup oc (c ! i) t)) \<and>
         fst (loop_body now oc i (c, fl, [])) = c \<and>
         fst (snd (loop_body now oc i (c, fl, []))) = fl \<and>
         (\<forall>e \<in> set (snd (snd (loop_body now oc i (c, fl, [])))). \<not> is_rotation e \<and> \<not> is_save e)"
proof -
  have r: "fst (create_full_backup oc (c ! i) t) = PyNone"
    using assms by (auto simp: create_full_backup_def Let_def)
  have l: "Log Error (Error_creating_full_backup_ex t (app_name (cfg (c ! i))) m)
           \<in> set (snd (create_full_backup oc (c ! i) t))"
    using assms by (auto simp: create_full_backup_def Let_def)
  have "\<not> truthy (fst (create_full_backup oc (c ! i) u))" for u
    using assms by (auto simp: create_falsy_iff)
  then have nf: "\<not> fst (snd (choose_and_create now oc (c ! i)))"
    by (simp add: choose_flag split: option.splits)
  have ev: "\<forall>e \<in> set (snd (snd (loop_body now oc i (c, fl, [])))). \<not> is_rotation e \<and> \<not> is_save e"
    using loop_body_failed_events [OF nf] by blast
  from r l ev show ?thesis
    by (simp add: loop_body_failed [OF nf])
qed

theorem external_command_failed_returns_none_witness:
  "mysqldump dump_fails = Raised ''mysqldump failed'' \<and>
   fst (create_full_backup dump_fails ([jom] ! 0) ''yearly'') = PyNone \<and>
   Log Error (Error_creating_full_backup_ex ''yearly'' ''jom'' ''mysqldump failed'')
     \<in> set (snd (create_full_backup dump_fails ([jom] ! 0) ''yearly'')) \<and>
   fst (loop_body new_year dump_fails 0 ([jom], json_dump [jom], [])) = [jom] \<and>
   fst (snd (loop_body new_year dump_fails 0 ([jom], json_dump [jom], []))) = json_dump [jom]"
  using external_command_failed_returns_none [where oc = dump_fails
      and m = "''mysqldump failed''" and d = "''none''" and c = "[jom]" and i = 0
      and t = "''yearly''" and now = new_year and fl = "json_dump [jom]"]
  by (simp add: example_defs)

end
